theory Spec2Isabelle
  imports Main "HOL-Library.Word" "HOL-Library.Char_ord" "HOL-Library.List_Lexorder"
begin

section \<open>Scheduler factory: \<^verbatim>\<open>plugin/pkg/scheduler/factory/factory.go\<close>\<close>

subsection \<open>Durations and instants\<close>

text \<open>
  Go's \<^verbatim>\<open>time.Duration\<close> is an \<^verbatim>\<open>int64\<close> count of nanoseconds: arithmetic wraps
  around, comparison is signed. An instant (\<^verbatim>\<open>time.Time\<close>) is a point on the
  nanosecond time line; its range is far wider than that of a duration, so it is an
  unbounded integer here.
\<close>

type_synonym Duration = "64 word"
type_synonym Time = int

definition Second :: Duration where
  "Second = 1000000000"

definition minDuration :: Duration where
  "minDuration = word_of_int (- (2 ^ 63))"

definition maxDuration_int64 :: Duration where
  "maxDuration_int64 = word_of_int (2 ^ 63 - 1)"

text \<open>
  \<^verbatim>\<open>t.Sub(u)\<close> of the standard library: the duration \<^verbatim>\<open>t - u\<close>, and the largest
  (smallest) duration when the difference does not fit in one.
\<close>

definition Sub :: "Time \<Rightarrow> Time \<Rightarrow> Duration" where
  "Sub t u =
     (let d = t - u in
      if d < - (2 ^ 63) then minDuration
      else if 2 ^ 63 - 1 < d then maxDuration_int64
      else word_of_int d)"

subsection \<open>The backoff manager\<close>

text \<open>
  \<^verbatim>\<open>type backoffEntry struct { backoff time.Duration; lastUpdate time.Time }\<close>
\<close>

record backoffEntry =
  backoff :: Duration
  lastUpdate :: Time

text \<open>
  \<^verbatim>\<open>podBackoff\<close>: the map from pod name to entry and the two configured durations.
  The mutex has no sequential content. The clock is an interface with the one method
  \<^verbatim>\<open>Now()\<close>; each operation below reads it exactly once, so the reading is an
  argument of the operation. The map holds pointers to entries: an update through the
  pointer that \<^verbatim>\<open>getEntry\<close> returns is an update of the map's entry for that pod.
\<close>

record podBackoff =
  perPodBackoff :: "string \<rightharpoonup> backoffEntry"
  defaultDuration :: Duration
  maxDuration :: Duration

text \<open>The zero \<^verbatim>\<open>time.Time\<close> of a freshly allocated entry, overwritten at once.\<close>

definition zeroTime :: Time where
  "zeroTime = 0"

definition getEntry :: "podBackoff \<Rightarrow> string \<Rightarrow> Time \<Rightarrow> podBackoff \<times> backoffEntry" where
  "getEntry p podID now =
     (let entry = (case perPodBackoff p podID of
                     None \<Rightarrow> \<lparr>backoff = defaultDuration p, lastUpdate = zeroTime\<rparr>
                   | Some e \<Rightarrow> e);
          entry' = entry\<lparr>lastUpdate := now\<rparr>
      in (p\<lparr>perPodBackoff := (perPodBackoff p)(podID \<mapsto> entry')\<rparr>, entry'))"

text \<open>
  \<^verbatim>\<open>entry.backoff *= 2; if entry.backoff > p.maxDuration { entry.backoff = p.maxDuration }\<close>
\<close>

definition nextBackoff :: "Duration \<Rightarrow> Duration \<Rightarrow> Duration" where
  "nextBackoff m b = (let b2 = b * 2 in if m <s b2 then m else b2)"

definition getBackoff :: "podBackoff \<Rightarrow> string \<Rightarrow> Time \<Rightarrow> podBackoff \<times> Duration" where
  "getBackoff p podID now =
     (let (p1, entry) = getEntry p podID now;
          duration = backoff entry;
          entry' = entry\<lparr>backoff := nextBackoff (maxDuration p1) (backoff entry)\<rparr>
      in (p1\<lparr>perPodBackoff := (perPodBackoff p1)(podID \<mapsto> entry')\<rparr>, duration))"

text \<open>
  \<^verbatim>\<open>gc\<close> ranges over the map and deletes every entry with
  \<^verbatim>\<open>now.Sub(entry.lastUpdate) > p.maxDuration\<close>. Each decision looks at one entry
  only, so the order of the iteration does not matter.
\<close>

definition expired :: "podBackoff \<Rightarrow> Time \<Rightarrow> backoffEntry \<Rightarrow> bool" where
  "expired p now entry = (maxDuration p <s Sub now (lastUpdate entry))"

definition gc :: "podBackoff \<Rightarrow> Time \<Rightarrow> podBackoff" where
  "gc p now =
     p\<lparr>perPodBackoff :=
         (\<lambda>podID. case perPodBackoff p podID of
                     None \<Rightarrow> None
                   | Some entry \<Rightarrow> if expired p now entry then None else Some entry)\<rparr>"

text \<open>
  The backoff manager that \<^verbatim>\<open>CreateFromKeys\<close> builds: an empty map, one second, sixty
  seconds.
\<close>

definition factoryBackoff :: podBackoff where
  "factoryBackoff =
     \<lparr>perPodBackoff = Map.empty, defaultDuration = 1 * Second, maxDuration = 60 * Second\<rparr>"

text \<open>\<^verbatim>\<open>getBackoff\<close> called once for each clock reading of a list, in order.\<close>

fun getBackoffs :: "podBackoff \<Rightarrow> string \<Rightarrow> Time list \<Rightarrow> podBackoff \<times> Duration list" where
  "getBackoffs p podID [] = (p, [])"
| "getBackoffs p podID (now # nows) =
     (let (p1, d) = getBackoff p podID now;
          (p2, ds) = getBackoffs p1 podID nows
      in (p2, d # ds))"

text \<open>
  The duration the next \<^verbatim>\<open>getBackoff\<close> call for a pod returns: the stored one, or the
  default when the pod has no entry.
\<close>

definition current :: "podBackoff \<Rightarrow> string \<Rightarrow> Duration" where
  "current p podID = (case perPodBackoff p podID of None \<Rightarrow> defaultDuration p | Some e \<Rightarrow> backoff e)"

text \<open>
  The sequence the specification gives for \<open>n\<close> calls in a row, over the integers:
  \<open>D, 2D, 4D, \<dots>\<close>, each capped at \<open>M\<close>.
\<close>

definition specBackoffs :: "int \<Rightarrow> int \<Rightarrow> nat \<Rightarrow> int list" where
  "specBackoffs D M n = map (\<lambda>k. min (2 ^ k * D) M) [0..<n]"

subsection \<open>Sequences of calls on the backoff manager\<close>

text \<open>
  How long ago an entry was updated, as \<^verbatim>\<open>gc\<close> measures it:
  \<^verbatim>\<open>now.Sub(entry.lastUpdate)\<close>, in nanoseconds.
\<close>

definition age :: "Time \<Rightarrow> backoffEntry \<Rightarrow> int" where
  "age now entry = sint (Sub now (lastUpdate entry))"

text \<open>
  A call on the manager, with the clock reading it sees; \<^verbatim>\<open>calls\<close> runs a list of
  them and collects what the \<^verbatim>\<open>getBackoff\<close> calls returned, in order.
\<close>

datatype backoffCall = GetBackoff string Time | Gc Time

fun call :: "podBackoff \<Rightarrow> backoffCall \<Rightarrow> podBackoff \<times> (string \<times> Duration) list" where
  "call p (GetBackoff podID now) = (let (p1, d) = getBackoff p podID now in (p1, [(podID, d)]))"
| "call p (Gc now) = (gc p now, [])"

fun calls :: "podBackoff \<Rightarrow> backoffCall list \<Rightarrow> podBackoff \<times> (string \<times> Duration) list" where
  "calls p [] = (p, [])"
| "calls p (c # cs) =
     (let (p1, r1) = call p c;
          (p2, r2) = calls p1 cs
      in (p2, r1 @ r2))"

text \<open>The pod has an entry before the calls and after each of them.\<close>

fun keptThroughout :: "string \<Rightarrow> podBackoff \<Rightarrow> backoffCall list \<Rightarrow> bool" where
  "keptThroughout podID p [] = (perPodBackoff p podID \<noteq> None)"
| "keptThroughout podID p (c # cs) =
     (perPodBackoff p podID \<noteq> None \<and> keptThroughout podID (fst (call p c)) cs)"

text \<open>Every stored backoff lies between the default and the maximum duration.\<close>

definition entriesBounded :: "podBackoff \<Rightarrow> bool" where
  "entriesBounded p =
     (\<forall>podID entry. perPodBackoff p podID = Some entry \<longrightarrow>
        defaultDuration p \<le>s backoff entry \<and> backoff entry \<le>s maxDuration p)"

text \<open>A manager with the factory's durations and one entry, updated at instant 0.\<close>

definition exampleBackoff :: podBackoff where
  "exampleBackoff =
     \<lparr>perPodBackoff = [''a'' \<mapsto> \<lparr>backoff = 2 * Second, lastUpdate = 0\<rparr>],
      defaultDuration = 1 * Second, maxDuration = 60 * Second\<rparr>"

text \<open>
  Durations for which doubling never leaves the range of a duration: the default is not
  negative, not above the maximum, and the maximum is below \<open>2\<^sup>6\<^sup>2\<close> nanoseconds.
\<close>

definition boundedConfig :: "podBackoff \<Rightarrow> bool" where
  "boundedConfig p =
     (0 \<le> sint (defaultDuration p) \<and> sint (defaultDuration p) \<le> sint (maxDuration p)
      \<and> sint (maxDuration p) < 2 ^ 62)"


text \<open>
  A manager whose maximum is the largest duration there is, and one whose maximum is
  negative.
\<close>

definition saturatedBackoff :: podBackoff where
  "saturatedBackoff =
     \<lparr>perPodBackoff = [''a'' \<mapsto> \<lparr>backoff = 2 * Second, lastUpdate = 0\<rparr>],
      defaultDuration = 1 * Second, maxDuration = maxDuration_int64\<rparr>"



subsection \<open>Nodes and the node enumerator\<close>

text \<open>A Go \<^verbatim>\<open>error\<close> value, by its message.\<close>

datatype error = Error string

text \<open>The run-time panics of an indexing expression on an embedded pointer.\<close>

datatype panic = NilPointerDereference | IndexOutOfRange

text \<open>
  Modelled from the spec: the types \<^verbatim>\<open>api.NodeConditionType\<close> and
  \<^verbatim>\<open>api.ConditionStatus\<close> and the constants \<^verbatim>\<open>api.NodeReady\<close> and
  \<^verbatim>\<open>api.ConditionTrue\<close> are declared in \<^verbatim>\<open>pkg/api\<close>, outside the file. Both types
  are strings; the two constants are the "ready" condition type and the status "true" of
  the specification. Only the examples use their spelling.
\<close>

type_synonym NodeConditionType = string
type_synonym ConditionStatus = string

definition NodeReady :: NodeConditionType where
  "NodeReady = ''Ready''"

definition ConditionTrue :: ConditionStatus where
  "ConditionTrue = ''True''"

text \<open>
  The fields of \<^verbatim>\<open>api.NodeCondition\<close>, \<^verbatim>\<open>api.Node\<close> and \<^verbatim>\<open>api.NodeList\<close> that the
  file reads: \<^verbatim>\<open>cond.Type\<close>, \<^verbatim>\<open>cond.Status\<close>, \<^verbatim>\<open>node.Name\<close>,
  \<^verbatim>\<open>node.Spec.Unschedulable\<close>, \<^verbatim>\<open>node.Status.Conditions\<close>, and the list's
  \<^verbatim>\<open>TypeMeta\<close>, \<^verbatim>\<open>ListMeta\<close> and \<^verbatim>\<open>Items\<close>.
\<close>

record NodeCondition =
  condType :: NodeConditionType
  condStatus :: ConditionStatus

record Node =
  nodeName :: string
  unschedulable :: bool
  conditions :: "NodeCondition list"

record TypeMeta =
  kind :: string
  apiVersion :: string

record ListMeta =
  selfLink :: string
  resourceVersion :: string

record NodeList =
  typeMeta :: TypeMeta
  listMeta :: ListMeta
  items :: "Node list"

text \<open>
  \<^verbatim>\<open>type nodeEnumerator struct { *api.NodeList }\<close>: the embedded pointer may be nil.
\<close>

record nodeEnumerator =
  nodeList :: "NodeList option"

text \<open>
  The inner loop of \<^verbatim>\<open>pollMinions\<close>: every condition is stored under its type, so a
  later condition replaces an earlier one of the same type.
\<close>

definition conditionMap :: "NodeCondition list \<Rightarrow> (NodeConditionType \<rightharpoonup> NodeCondition)" where
  "conditionMap conds = foldl (\<lambda>m cond. m(condType cond \<mapsto> cond)) Map.empty conds"

text \<open>
  The outer loop, over \<^verbatim>\<open>allNodes.Items\<close>; the accumulator is \<^verbatim>\<open>nodes.Items\<close>.
\<close>

fun filterMinions :: "Node list \<Rightarrow> Node list \<Rightarrow> Node list" where
  "filterMinions [] acc = acc"
| "filterMinions (node # rest) acc =
     (let cm = conditionMap (conditions node) in
      if unschedulable node then filterMinions rest acc
      else (case cm NodeReady of
              Some condition \<Rightarrow>
                if condStatus condition = ConditionTrue then filterMinions rest (acc @ [node])
                else filterMinions rest acc
            | None \<Rightarrow> filterMinions rest acc))"

text \<open>
  \<^verbatim>\<open>pollMinions\<close>, as a function of what \<^verbatim>\<open>Client.Nodes().List\<close> returned.
\<close>

definition pollMinions :: "error + NodeList \<Rightarrow> error + nodeEnumerator" where
  "pollMinions listed =
     (case listed of
        Inl err \<Rightarrow> Inl err
      | Inr allNodes \<Rightarrow>
          Inr \<lparr>nodeList = Some \<lparr>typeMeta = typeMeta allNodes, listMeta = listMeta allNodes,
                                items = filterMinions (items allNodes) []\<rparr>\<rparr>)"

text \<open>
  \<^verbatim>\<open>Len\<close> and \<^verbatim>\<open>Get\<close>. \<^verbatim>\<open>&ne.Items[index]\<close> panics when the embedded pointer is
  nil and when the index is out of range; the model returns the node the pointer is to.
\<close>

definition Len :: "nodeEnumerator \<Rightarrow> int" where
  "Len ne = (case nodeList ne of None \<Rightarrow> 0 | Some nl \<Rightarrow> int (length (items nl)))"

definition Get :: "nodeEnumerator \<Rightarrow> int \<Rightarrow> panic + Node" where
  "Get ne index =
     (case nodeList ne of
        None \<Rightarrow> Inl NilPointerDereference
      | Some nl \<Rightarrow>
          if 0 \<le> index \<and> index < int (length (items nl)) then Inr (items nl ! nat index)
          else Inl IndexOutOfRange)"

text \<open>The last condition of a type in a condition list, if there is one.\<close>

definition lastCondition :: "NodeConditionType \<Rightarrow> NodeCondition list \<Rightarrow> NodeCondition option" where
  "lastCondition t conds =
     (let cs = filter (\<lambda>c. condType c = t) conds in if cs = [] then None else Some (last cs))"

text \<open>
  The specification's words: not unschedulable, and some condition of type ready has
  status true.
\<close>

definition specEligible :: "Node \<Rightarrow> bool" where
  "specEligible node =
     (\<not> unschedulable node \<and>
      (\<exists>c \<in> set (conditions node). condType c = NodeReady \<and> condStatus c = ConditionTrue))"

text \<open>What the loop tests: not unschedulable, and the last ready condition has status true.\<close>

definition eligible :: "Node \<Rightarrow> bool" where
  "eligible node =
     (\<not> unschedulable node \<and>
      (case lastCondition NodeReady (conditions node) of
         None \<Rightarrow> False
       | Some c \<Rightarrow> condStatus c = ConditionTrue))"

text \<open>Example nodes and lists.\<close>

definition emptyTypeMeta :: TypeMeta where
  "emptyTypeMeta = \<lparr>kind = '''', apiVersion = ''''\<rparr>"

definition emptyListMeta :: ListMeta where
  "emptyListMeta = \<lparr>selfLink = '''', resourceVersion = ''''\<rparr>"

definition readyNode :: Node where
  "readyNode = \<lparr>nodeName = ''ready'', unschedulable = False,
     conditions = [\<lparr>condType = NodeReady, condStatus = ConditionTrue\<rparr>]\<rparr>"

definition cordonedNode :: Node where
  "cordonedNode = \<lparr>nodeName = ''cordoned'', unschedulable = True,
     conditions = [\<lparr>condType = NodeReady, condStatus = ConditionTrue\<rparr>]\<rparr>"

definition silentNode :: Node where
  "silentNode = \<lparr>nodeName = ''silent'', unschedulable = False, conditions = []\<rparr>"

definition unreadyNode :: Node where
  "unreadyNode = \<lparr>nodeName = ''unready'', unschedulable = False,
     conditions = [\<lparr>condType = NodeReady, condStatus = ''False''\<rparr>]\<rparr>"

definition staleReadyNode :: Node where
  "staleReadyNode = \<lparr>nodeName = ''stale'', unschedulable = False,
     conditions = [\<lparr>condType = NodeReady, condStatus = ConditionTrue\<rparr>,
                   \<lparr>condType = NodeReady, condStatus = ''False''\<rparr>]\<rparr>"

definition recoveredNode :: Node where
  "recoveredNode = \<lparr>nodeName = ''recovered'', unschedulable = False,
     conditions = [\<lparr>condType = NodeReady, condStatus = ''False''\<rparr>,
                   \<lparr>condType = NodeReady, condStatus = ConditionTrue\<rparr>]\<rparr>"

definition listOf :: "Node list \<Rightarrow> NodeList" where
  "listOf nodes = \<lparr>typeMeta = emptyTypeMeta, listMeta = emptyListMeta, items = nodes\<rparr>"

subsection \<open>The default error handler\<close>

text \<open>
  The fields of \<^verbatim>\<open>api.Pod\<close> that the file reads: \<^verbatim>\<open>pod.Namespace\<close>,
  \<^verbatim>\<open>pod.Name\<close> and \<^verbatim>\<open>pod.Spec.Host\<close>, the assignment field.
\<close>

record Pod =
  podNamespace :: string
  podName :: string
  podHost :: string

text \<open>
  What the retry task does to the world outside the backoff manager, in order: it
  sleeps, it asks the remote store for a pod by namespace and name, it logs that it
  abandons a pod, it adds a pod to the queue.
\<close>

datatype retryCall =
    Sleep Duration
  | GetPod string string
  | LogAbandon string error
  | QueueAdd Pod

text \<open>\<^verbatim>\<open>func (p *podBackoff) wait(podID string) { time.Sleep(p.getBackoff(podID)) }\<close>\<close>

definition wait :: "podBackoff \<Rightarrow> string \<Rightarrow> Time \<Rightarrow> podBackoff \<times> retryCall list" where
  "wait p podID now = (let (p1, d) = getBackoff p podID now in (p1, [Sleep d]))"

text \<open>
  The body of the goroutine that the error function starts. The remote store is the
  function \<open>clientGet\<close> from namespace and name to what
  \<^verbatim>\<open>Client.Get().Namespace(ns).Resource("pods").Name(id).Do().Into(pod)\<close> yields at the
  moment of the call: an error, or the pod as the store has it.
\<close>

definition retryTask ::
  "(string \<Rightarrow> string \<Rightarrow> error + Pod) \<Rightarrow> podBackoff \<Rightarrow> Time \<Rightarrow> Pod
     \<Rightarrow> podBackoff \<times> retryCall list" where
  "retryTask clientGet pb now pod =
     (let podID = podName pod;
          namespace = podNamespace pod;
          (pb1, slept) = wait pb podID now;
          fetched = clientGet namespace podID;
          sofar = slept @ [GetPod namespace podID]
      in case fetched of
           Inl err \<Rightarrow> (pb1, sofar @ [LogAbandon podID err])
         | Inr pod' \<Rightarrow>
             if podHost pod' = [] then (pb1, sofar @ [QueueAdd pod'])
             else (pb1, sofar))"

text \<open>
  The function that \<^verbatim>\<open>makeDefaultErrorFunc\<close> returns: it logs, collects garbage and
  starts the task. The task runs on its own; here it follows the collection at once.
\<close>

definition defaultErrorFunc ::
  "(string \<Rightarrow> string \<Rightarrow> error + Pod) \<Rightarrow> podBackoff \<Rightarrow> Time \<Rightarrow> Time \<Rightarrow> Pod
     \<Rightarrow> podBackoff \<times> retryCall list" where
  "defaultErrorFunc clientGet pb nowGc nowTask pod =
     retryTask clientGet (gc pb nowGc) nowTask pod"

text \<open>A remote store with one pending pod and one bound pod.\<close>

definition remoteExample :: "string \<Rightarrow> string \<Rightarrow> error + Pod" where
  "remoteExample ns name =
     (if ns = ''default'' \<and> name = ''pending''
        then Inr \<lparr>podNamespace = ''default'', podName = ''pending'', podHost = []\<rparr>
      else if ns = ''default'' \<and> name = ''bound''
        then Inr \<lparr>podNamespace = ''default'', podName = ''bound'', podHost = ''node-1''\<rparr>
      else Inl (Error ''not found''))"

subsection \<open>The handlers of the assigned-pod informer\<close>

text \<open>
  What an informer hands to a handler: an object of some dynamic type. The handlers of
  \<^verbatim>\<open>NewConfigFactory\<close> tell a pod from a \<^verbatim>\<open>cache.DeletedFinalStateUnknown\<close>, the record
  of a deletion whose object was missed, which carries the key and the last known
  object; anything else they ignore.
\<close>

datatype object =
    PodObject Pod
  | DeletedFinalStateUnknown string object
  | OtherObject

text \<open>The calls the handlers make on the modeler.\<close>

datatype modelerCall = ForgetPod Pod | ForgetPodByKey string

definition AddFunc :: "object \<Rightarrow> modelerCall list" where
  "AddFunc obj = (case obj of PodObject pod \<Rightarrow> [ForgetPod pod] | _ \<Rightarrow> [])"

definition DeleteFunc :: "object \<Rightarrow> modelerCall list" where
  "DeleteFunc obj =
     (case obj of
        PodObject t \<Rightarrow> [ForgetPod t]
      | DeletedFinalStateUnknown key final \<Rightarrow> [ForgetPodByKey key]
      | _ \<Rightarrow> [])"

text \<open>
  \<^verbatim>\<open>framework.ResourceEventHandlerFuncs\<close> with \<^verbatim>\<open>AddFunc\<close> and \<^verbatim>\<open>DeleteFunc\<close> set and
  no \<^verbatim>\<open>UpdateFunc\<close>: an update calls nothing.
\<close>

datatype informerEvent = OnAdd object | OnUpdate object object | OnDelete object

definition assignedPodHandler :: "informerEvent \<Rightarrow> modelerCall list" where
  "assignedPodHandler event =
     (case event of
        OnAdd obj \<Rightarrow> AddFunc obj
      | OnUpdate old new \<Rightarrow> []
      | OnDelete obj \<Rightarrow> DeleteFunc obj)"

text \<open>
  Modelled from the spec: \<^verbatim>\<open>ForgetPod\<close> and \<^verbatim>\<open>ForgetPodByKey\<close> of the modeler
  (\<^verbatim>\<open>plugin/pkg/scheduler\<close>, outside the file) "remove an identity from the assumed
  set". The assumed set is a set of keys; the function from a pod to its key is a
  parameter.
\<close>

fun forget :: "(Pod \<Rightarrow> string) \<Rightarrow> string set \<Rightarrow> modelerCall \<Rightarrow> string set" where
  "forget keyFunc assumed (ForgetPod pod) = assumed - {keyFunc pod}"
| "forget keyFunc assumed (ForgetPodByKey key) = assumed - {key}"

definition assumedAfter :: "(Pod \<Rightarrow> string) \<Rightarrow> string set \<Rightarrow> informerEvent \<Rightarrow> string set" where
  "assumedAfter keyFunc assumed event = foldl (forget keyFunc) assumed (assignedPodHandler event)"

subsection \<open>Creating a scheduler from a policy\<close>

text \<open>
  The fields of \<^verbatim>\<open>schedulerapi.Policy\<close> and of its predicate and priority entries that
  matter here.
\<close>

record PredicatePolicy =
  predicateName :: string

record PriorityPolicy =
  priorityName :: string
  priorityWeight :: int

record Policy =
  predicates :: "PredicatePolicy list"
  priorities :: "PriorityPolicy list"

text \<open>
  What \<^verbatim>\<open>CreateFromConfig\<close> and \<^verbatim>\<open>CreateFromKeys\<close> do to the world, in order: log
  lines, registrations in the plugin registry, reflectors run until the stop signal (by
  the resource they watch), and the goroutine of the scheduled-pod populator.
\<close>

datatype factoryCall =
    LogInfo string
  | RegisterCustomFitPredicate PredicatePolicy
  | RegisterCustomPriorityFunction PriorityPolicy
  | RunReflector string
  | RunScheduledPodPopulator

text \<open>
  The functions the two call that are not in the file, as parameters:
  \<^verbatim>\<open>validation.ValidatePolicy\<close>, the keys that \<^verbatim>\<open>RegisterCustomFitPredicate\<close> and
  \<^verbatim>\<open>RegisterCustomPriorityFunction\<close> return, and whether
  \<^verbatim>\<open>getFitPredicateFunctions\<close> and \<^verbatim>\<open>getPriorityFunctionConfigs\<close> fail.
\<close>

record collaborators =
  ValidatePolicy :: "Policy \<Rightarrow> error option"
  fitPredicateKey :: "PredicatePolicy \<Rightarrow> string"
  priorityFunctionKey :: "PriorityPolicy \<Rightarrow> string"
  getFitPredicateFunctions :: "string set \<Rightarrow> error option"
  getPriorityFunctionConfigs :: "string set \<Rightarrow> error option"

text \<open>The \<^verbatim>\<open>scheduler.Config\<close> returned, by what it was built from.\<close>

record Config =
  configPredicateKeys :: "string set"
  configPriorityKeys :: "string set"
  configBackoff :: podBackoff

definition CreateFromKeys ::
  "collaborators \<Rightarrow> string set \<Rightarrow> string set \<Rightarrow> (error + Config) \<times> factoryCall list" where
  "CreateFromKeys env predicateKeys priorityKeys =
     (let logged = [LogInfo ''creating scheduler with fit predicates and priority functions''] in
      case getFitPredicateFunctions env predicateKeys of
        Some err \<Rightarrow> (Inl err, logged)
      | None \<Rightarrow>
          (case getPriorityFunctionConfigs env priorityKeys of
             Some err \<Rightarrow> (Inl err, logged)
           | None \<Rightarrow>
               (Inr \<lparr>configPredicateKeys = predicateKeys, configPriorityKeys = priorityKeys,
                     configBackoff = factoryBackoff\<rparr>,
                logged @ [RunReflector ''pods'', RunScheduledPodPopulator,
                          RunReflector ''nodes'', RunReflector ''services''])))"

definition CreateFromConfig ::
  "collaborators \<Rightarrow> Policy \<Rightarrow> (error + Config) \<times> factoryCall list" where
  "CreateFromConfig env policy =
     (let logged = [LogInfo ''creating scheduler from configuration''] in
      case ValidatePolicy env policy of
        Some err \<Rightarrow> (Inl err, logged)
      | None \<Rightarrow>
          (let registeredPredicates =
                 concat (map (\<lambda>predicate. [LogInfo ''Registering predicate'',
                                             RegisterCustomFitPredicate predicate])
                           (predicates policy));
               predicateKeys = set (map (fitPredicateKey env) (predicates policy));
               registeredPriorities =
                 concat (map (\<lambda>priority. [LogInfo ''Registering priority'',
                                            RegisterCustomPriorityFunction priority])
                           (priorities policy));
               priorityKeys = set (map (priorityFunctionKey env) (priorities policy));
               (result, started) = CreateFromKeys env predicateKeys priorityKeys
           in (result, logged @ registeredPredicates @ registeredPriorities @ started)))"

text \<open>Collaborators whose validation rejects a priority without a positive weight.\<close>

definition strictValidation :: collaborators where
  "strictValidation =
     \<lparr>ValidatePolicy =
        (\<lambda>policy. if \<exists>priority \<in> set (priorities policy). priorityWeight priority \<le> 0
                   then Some (Error ''priority weight must be positive'') else None),
      fitPredicateKey = predicateName,
      priorityFunctionKey = priorityName,
      getFitPredicateFunctions = (\<lambda>keys. None),
      getPriorityFunctionConfigs = (\<lambda>keys. None)\<rparr>"

subsection \<open>List/watch sources and their field selectors\<close>

text \<open>
  Modelled from the spec: the package \<^verbatim>\<open>fields\<close> (selectors, \<^verbatim>\<open>Set.AsSelector\<close>,
  \<^verbatim>\<open>ParseSelector\<close>) and \<^verbatim>\<open>cache.NewListWatchFromClient\<close> are outside the file. The
  specification names the filter of each list/watch and not the way it is written. What
  follows is the field-selector language of the remote store that the file's selector
  expressions are written in: a selector is a term "field equals value", a term "field
  differs from value", or a conjunction of selectors; the empty conjunction selects
  everything.
\<close>

datatype Selector = HasTerm string string | NotHasTerm string string | AndTerm "Selector list"

fun Matches :: "Selector \<Rightarrow> (string \<Rightarrow> string) \<Rightarrow> bool" where
  "Matches (HasTerm field val) fv = (fv field = val)"
| "Matches (NotHasTerm field val) fv = (fv field \<noteq> val)"
| "Matches (AndTerm terms) fv = list_all (\<lambda>t. Matches t fv) terms"

definition Everything :: Selector where
  "Everything = AndTerm []"

text \<open>
  Modelled from the spec: \<^verbatim>\<open>fields.Set{...}.AsSelector()\<close>, one "equals" term for each
  entry of the set, and the term itself when there is one entry.
\<close>

definition AsSelector :: "(string \<times> string) list \<Rightarrow> Selector" where
  "AsSelector ls =
     (case map (\<lambda>(field, val). HasTerm field val) ls of
        [t] \<Rightarrow> t
      | ts \<Rightarrow> AndTerm ts)"

text \<open>
  Modelled from the spec: \<^verbatim>\<open>strings.Split\<close> of the standard library, for a separator
  that is not empty. \<open>skip\<close> counts the characters of a separator found that are still
  to be passed over, \<open>acc\<close> holds the current piece, reversed.
\<close>

fun splitFrom :: "string \<Rightarrow> nat \<Rightarrow> string \<Rightarrow> string \<Rightarrow> string list" where
  "splitFrom sep skip acc [] = [rev acc]"
| "splitFrom sep skip acc (c # cs) =
     (if 0 < skip then splitFrom sep (skip - 1) acc cs
      else if sep \<noteq> [] \<and> take (length sep) (c # cs) = sep
        then rev acc # splitFrom sep (length sep - 1) [] cs
      else splitFrom sep 0 (c # acc) cs)"

definition Split :: "string \<Rightarrow> string \<Rightarrow> string list" where
  "Split s sep = splitFrom sep 0 [] s"

text \<open>
  Modelled from the spec: \<^verbatim>\<open>fields.ParseSelector\<close> and its helper \<^verbatim>\<open>try\<close> (here
  \<open>tryOp\<close>). The selector is cut at the commas, the parts are sorted, an empty part
  is skipped, and every other part is read as \<^verbatim>\<open>lhs!=rhs\<close>, else \<^verbatim>\<open>lhs==rhs\<close>, else
  \<^verbatim>\<open>lhs=rhs\<close>, else the selector is refused.
\<close>

definition tryOp :: "string \<Rightarrow> string \<Rightarrow> (string \<times> string) option" where
  "tryOp selectorPiece op =
     (case Split selectorPiece op of [lhs, rhs] \<Rightarrow> Some (lhs, rhs) | _ \<Rightarrow> None)"

definition parseTerm :: "string \<Rightarrow> error + Selector" where
  "parseTerm part =
     (case tryOp part ''!='' of
        Some (lhs, rhs) \<Rightarrow> Inr (NotHasTerm lhs rhs)
      | None \<Rightarrow>
          (case tryOp part ''=='' of
             Some (lhs, rhs) \<Rightarrow> Inr (HasTerm lhs rhs)
           | None \<Rightarrow>
               (case tryOp part ''='' of
                  Some (lhs, rhs) \<Rightarrow> Inr (HasTerm lhs rhs)
                | None \<Rightarrow> Inl (Error (''invalid selector: cannot understand '' @ part)))))"

fun parseTerms :: "string list \<Rightarrow> Selector list \<Rightarrow> error + Selector list" where
  "parseTerms [] ts = Inr ts"
| "parseTerms (part # parts) ts =
     (if part = [] then parseTerms parts ts
      else (case parseTerm part of
              Inl err \<Rightarrow> Inl err
            | Inr t \<Rightarrow> parseTerms parts (ts @ [t])))"

definition ParseSelector :: "string \<Rightarrow> error + Selector" where
  "ParseSelector selector =
     (case parseTerms (sort (Split selector '','')) [] of
        Inl err \<Rightarrow> Inl err
      | Inr [t] \<Rightarrow> Inr t
      | Inr ts \<Rightarrow> Inr (AndTerm ts))"

text \<open>
  \<^verbatim>\<open>parseSelectorOrDie\<close> panics with the error of \<^verbatim>\<open>ParseSelector\<close>: the left
  summand is that panic.
\<close>

definition parseSelectorOrDie :: "string \<Rightarrow> error + Selector" where
  "parseSelectorOrDie s = ParseSelector s"

text \<open>
  Modelled from the spec: \<^verbatim>\<open>api.NamespaceAll\<close>, the empty string, and
  \<^verbatim>\<open>cache.NewListWatchFromClient\<close>, by the resource, the namespace and the field
  selector it lists and watches with.
\<close>

definition NamespaceAll :: string where
  "NamespaceAll = []"

record ListWatch =
  lwResource :: string
  lwNamespace :: string
  lwFieldSelector :: Selector

definition NewListWatchFromClient :: "string \<Rightarrow> string \<Rightarrow> Selector \<Rightarrow> ListWatch" where
  "NewListWatchFromClient resource namespace fieldSelector =
     \<lparr>lwResource = resource, lwNamespace = namespace, lwFieldSelector = fieldSelector\<rparr>"

text \<open>
  The four list/watch sources of the file. \<^verbatim>\<open>client.PodHost\<close>, the name of the
  assignment field, is declared outside the file: it is a parameter.
\<close>

definition createUnassignedPodLW :: "string \<Rightarrow> ListWatch" where
  "createUnassignedPodLW PodHost =
     NewListWatchFromClient ''pods'' NamespaceAll (AsSelector [(PodHost, [])])"

definition createAssignedPodLW :: "string \<Rightarrow> error + ListWatch" where
  "createAssignedPodLW PodHost =
     (case parseSelectorOrDie (PodHost @ ''!='') of
        Inl err \<Rightarrow> Inl err
      | Inr selector \<Rightarrow> Inr (NewListWatchFromClient ''pods'' NamespaceAll selector))"

definition createMinionLW :: "error + ListWatch" where
  "createMinionLW =
     (case parseSelectorOrDie [] of
        Inl err \<Rightarrow> Inl err
      | Inr selector \<Rightarrow> Inr (NewListWatchFromClient ''nodes'' NamespaceAll selector))"

definition createServiceLW :: "error + ListWatch" where
  "createServiceLW =
     (case parseSelectorOrDie [] of
        Inl err \<Rightarrow> Inl err
      | Inr selector \<Rightarrow> Inr (NewListWatchFromClient ''services'' NamespaceAll selector))"

text \<open>
  Modelled from the spec: the fields the store matches a pod's selector against. The
  field named \<^verbatim>\<open>client.PodHost\<close> is the pod's assignment field; a field that is not
  set reads as the empty string.
\<close>

definition podFields :: "string \<Rightarrow> Pod \<Rightarrow> string \<Rightarrow> string" where
  "podFields PodHost pod field = (if field = PodHost then podHost pod else [])"

text \<open>A field name without the characters the selector syntax uses.\<close>

definition plainFieldName :: "string \<Rightarrow> bool" where
  "plainFieldName name = (CHR '','' \<notin> set name \<and> CHR ''!'' \<notin> set name \<and> CHR ''='' \<notin> set name)"

section \<open>Properties\<close>

subsection \<open>Doubling without overflow\<close>

lemma sint_double:
  fixes b :: Duration
  assumes "0 \<le> sint b" "sint b < 2 ^ 62"
  shows "sint (b * 2) = 2 * sint b"
proof -
  have "sint (b * 2) = signed_take_bit 63 (sint b * 2)"
    by (simp add: sint_word_ariths)
  also have "\<dots> = sint b * 2"
    using assms by (intro signed_take_bit_int_eq_self) auto
  finally show ?thesis by simp
qed

lemma nextBackoff_sint:
  assumes "0 \<le> sint b" "sint b \<le> sint m" "sint m < 2 ^ 62"
  shows "sint (nextBackoff m b) = min (2 * sint b) (sint m)"
  using assms sint_double [of b]
  by (auto simp: nextBackoff_def Let_def word_sless_alt)

lemma getBackoff_fst_config:
  "maxDuration (fst (getBackoff p podID now)) = maxDuration p"
  "defaultDuration (fst (getBackoff p podID now)) = defaultDuration p"
  by (simp_all add: getBackoff_def getEntry_def Let_def)

lemma getBackoff_snd: "snd (getBackoff p podID now) = current p podID"
  by (simp add: getBackoff_def getEntry_def Let_def current_def split: option.splits)

lemma getBackoff_current:
  "current (fst (getBackoff p podID now)) podID = nextBackoff (maxDuration p) (current p podID)"
  by (simp add: getBackoff_def getEntry_def Let_def current_def split: option.splits)

lemma getBackoffs_snd:
  "snd (getBackoffs p podID nows) =
     map (\<lambda>k. (nextBackoff (maxDuration p) ^^ k) (current p podID)) [0..<length nows]"
proof (induction nows arbitrary: p)
  case Nil
  show ?case by simp
next
  case (Cons now nows)
  obtain p1 d where g: "getBackoff p podID now = (p1, d)" by (cases "getBackoff p podID now")
  have d: "d = current p podID" using getBackoff_snd [of p podID now] g by simp
  have c: "current p1 podID = nextBackoff (maxDuration p) (current p podID)"
    using getBackoff_current [of p podID now] g by simp
  have m: "maxDuration p1 = maxDuration p" using getBackoff_fst_config(1) [of p podID now] g by simp
  have "snd (getBackoffs p (podID) (now # nows)) = d # snd (getBackoffs p1 podID nows)"
    using g by (simp add: split_beta)
  also have "\<dots> = current p podID # map (\<lambda>k. (nextBackoff (maxDuration p) ^^ Suc k) (current p podID)) [0..<length nows]"
    by (simp add: Cons.IH d c m funpow_swap1)
  also have "\<dots> = map (\<lambda>k. (nextBackoff (maxDuration p) ^^ k) (current p podID)) [0..<length (now # nows)]"
    by (simp add: upt_rec [of 0] map_Suc_upt [symmetric] del: upt_Suc)
  finally show ?case .
qed

lemma iterate_sint:
  assumes "0 \<le> sint d" "sint d \<le> sint m" "sint m < 2 ^ 62"
  shows "sint ((nextBackoff m ^^ k) d) = min (2 ^ k * sint d) (sint m)"
proof (induction k)
  case 0
  show ?case using assms by simp
next
  case (Suc k)
  let ?b = "(nextBackoff m ^^ k) d"
  have b0: "0 \<le> sint ?b" using Suc assms by simp
  have bm: "sint ?b \<le> sint m" using Suc by simp
  have "sint ((nextBackoff m ^^ Suc k) d) = min (2 * sint ?b) (sint m)"
    using nextBackoff_sint [OF b0 bm assms(3)] by simp
  also have "\<dots> = min (2 ^ Suc k * sint d) (sint m)"
    using Suc assms by (auto simp: min_def)
  finally show ?case .
qed

subsection \<open>The sequence of backoffs\<close>

text \<open>
  Claim C1, amended. For a pod with no entry, and durations with
  \<open>0 \<le> defaultDuration \<le> maxDuration < 2\<^sup>6\<^sup>2\<close> nanoseconds, \<open>n\<close> calls of
  \<^verbatim>\<open>getBackoff\<close> in a row return \<open>D, 2D, 4D, \<dots>\<close> capped at \<open>M\<close>, whatever the clock
  reads at each call.
\<close>

theorem getBackoff_sequence:
  assumes "perPodBackoff p podID = None"
    and "0 \<le> sint (defaultDuration p)"
    and "sint (defaultDuration p) \<le> sint (maxDuration p)"
    and "sint (maxDuration p) < 2 ^ 62"
  shows "map sint (snd (getBackoffs p podID nows)) =
           specBackoffs (sint (defaultDuration p)) (sint (maxDuration p)) (length nows)"
proof -
  have c: "current p podID = defaultDuration p"
    using assms(1) by (simp add: current_def)
  show ?thesis
    unfolding getBackoffs_snd specBackoffs_def c
    using iterate_sint [OF assms(2) assms(3) assms(4)]
    by (simp add: comp_def)
qed

text \<open>The factory's configuration: one second doubling up to sixty seconds.\<close>

theorem getBackoff_sequence_witness:
  "map sint (snd (getBackoffs factoryBackoff ''pod'' [0, 0, 0, 1, 1, 2, 3, 5])) =
     [1000000000, 2000000000, 4000000000, 8000000000, 16000000000, 32000000000,
      60000000000, 60000000000]"
  using getBackoff_sequence [of factoryBackoff "''pod''" "[0, 0, 0, 1, 1, 2, 3, 5]"]
  by (simp add: factoryBackoff_def Second_def specBackoffs_def upt_rec)

text \<open>
  Without the bounds the sequence is another one. With a default above the maximum the
  first call returns the default, not the cap; with a default of \<open>2\<^sup>6\<^sup>2\<close> nanoseconds the
  doubling wraps around and the second call returns a negative duration.
\<close>

theorem getBackoff_sequence_counterexample:
  "map sint (snd (getBackoffs
       \<lparr>perPodBackoff = Map.empty, defaultDuration = 2 * Second, maxDuration = 1 * Second\<rparr>
       ''pod'' [0]))
     \<noteq> specBackoffs (sint (2 * Second)) (sint (1 * Second)) 1
   \<and> map sint (snd (getBackoffs
       \<lparr>perPodBackoff = Map.empty, defaultDuration = word_of_int (2 ^ 62),
        maxDuration = maxDuration_int64\<rparr>
       ''pod'' [0, 0]))
     = [4611686018427387904, - 9223372036854775808]
   \<and> specBackoffs (sint (word_of_int (2 ^ 62) :: Duration)) (sint maxDuration_int64) 2
     = [4611686018427387904, 9223372036854775807]"
  by (simp add: getBackoff_def getEntry_def nextBackoff_def Let_def Second_def
      maxDuration_int64_def specBackoffs_def word_sless_alt upt_rec)

subsection \<open>Garbage collection\<close>

lemma Sub_exact:
  assumes "- (2 ^ 63) \<le> t - u" "t - u < 2 ^ 63"
  shows "sint (Sub t u) = t - u"
proof -
  have "sint (word_of_int (t - u) :: Duration) = signed_take_bit 63 (t - u)"
    by (simp only: sint_sbintrunc') simp
  also have "\<dots> = t - u"
    using assms by (intro signed_take_bit_int_eq_self) auto
  finally show ?thesis using assms by (simp add: Sub_def Let_def)
qed

lemma sint_bounds64: "- (2 ^ 63) \<le> sint (w :: Duration)" "sint (w :: Duration) < 2 ^ 63"
  using sint_ge [of w] sint_lt [of w] by simp_all

lemma gc_config:
  "maxDuration (gc p now) = maxDuration p" "defaultDuration (gc p now) = defaultDuration p"
  by (simp_all add: gc_def)

lemma gc_lookup:
  "perPodBackoff (gc p now) podID =
     (case perPodBackoff p podID of None \<Rightarrow> None
      | Some entry \<Rightarrow> if sint (maxDuration p) < age now entry then None else Some entry)"
  by (simp add: gc_def expired_def age_def word_sless_alt split: option.splits)



lemma gc_removed_beyond:
  assumes "perPodBackoff p podID = Some entry"
    and "sint (maxDuration p) < now - lastUpdate entry" and "now - lastUpdate entry < 2 ^ 63"
  shows "perPodBackoff (gc p now) podID = None"
proof -
  have "- (2 ^ 63) \<le> now - lastUpdate entry"
    using assms(2) sint_bounds64(1) [of "maxDuration p"] by linarith
  then have "age now entry = now - lastUpdate entry"
    using assms(3) by (simp add: age_def Sub_exact)
  then show ?thesis
    using assms by (simp add: gc_lookup)
qed

lemma sint_extremes:
  "sint minDuration = - (2 ^ 63)" "sint maxDuration_int64 = 2 ^ 63 - 1"
  by (simp_all add: minDuration_def maxDuration_int64_def)

lemma expired_elapsed:
  fixes m :: Duration
  assumes "sint m < 2 ^ 63 - 1"
  shows "sint m < sint (Sub now u) \<longleftrightarrow> sint m < now - u"
proof -
  consider "now - u < - (2 ^ 63)" | "2 ^ 63 - 1 < now - u"
    | "- (2 ^ 63) \<le> now - u" "now - u < 2 ^ 63"
    by linarith
  then show ?thesis
  proof cases
    case 1
    then have "sint (Sub now u) = - (2 ^ 63)"
      by (simp add: Sub_def Let_def sint_extremes)
    then show ?thesis
      using 1 sint_bounds64(1) [of m] by linarith
  next
    case 2
    then have "sint (Sub now u) = 2 ^ 63 - 1"
      by (simp add: Sub_def Let_def sint_extremes)
    then show ?thesis
      using 2 assms by linarith
  next
    case 3
    then show ?thesis by (simp add: Sub_exact)
  qed
qed

lemma gc_lookup_elapsed:
  assumes "sint (maxDuration p) < 2 ^ 63 - 1"
  shows "perPodBackoff (gc p now) podID =
     (case perPodBackoff p podID of None \<Rightarrow> None
      | Some entry \<Rightarrow>
          if sint (maxDuration p) < now - lastUpdate entry then None else Some entry)"
  using expired_elapsed [OF assms]
  by (simp add: gc_lookup age_def split: option.splits)

text \<open>
  Claim C4, amended. When \<^verbatim>\<open>maxDuration\<close> is less than the largest duration,
  \<open>2\<^sup>6\<^sup>3 - 1\<close> nanoseconds, then for every state and every instant of the call \<^verbatim>\<open>gc\<close>
  removes exactly the entries whose \<^verbatim>\<open>lastUpdate\<close> is more than \<^verbatim>\<open>maxDuration\<close> before
  that instant on the time line; an entry updated exactly \<^verbatim>\<open>maxDuration\<close> before, or
  later, stays, and stays as it is.
\<close>

theorem gc_removes_exactly:
  assumes "sint (maxDuration p) < 2 ^ 63 - 1"
  shows "dom (perPodBackoff (gc p now)) =
      {podID \<in> dom (perPodBackoff p).
         now - lastUpdate (the (perPodBackoff p podID)) \<le> sint (maxDuration p)}
    \<and> (\<forall>podID \<in> dom (perPodBackoff (gc p now)).
         perPodBackoff (gc p now) podID = perPodBackoff p podID)"
proof (intro conjI ballI)
  show "dom (perPodBackoff (gc p now)) =
      {podID \<in> dom (perPodBackoff p).
         now - lastUpdate (the (perPodBackoff p podID)) \<le> sint (maxDuration p)}"
  proof (rule set_eqI)
    fix podID
    show "podID \<in> dom (perPodBackoff (gc p now)) \<longleftrightarrow>
        podID \<in> {podID \<in> dom (perPodBackoff p).
           now - lastUpdate (the (perPodBackoff p podID)) \<le> sint (maxDuration p)}"
      by (cases "perPodBackoff p podID")
        (simp_all add: gc_lookup_elapsed [OF assms] dom_def not_less)
  qed
next
  fix podID assume "podID \<in> dom (perPodBackoff (gc p now))"
  then show "perPodBackoff (gc p now) podID = perPodBackoff p podID"
    by (cases "perPodBackoff p podID")
      (simp_all add: gc_lookup_elapsed [OF assms] dom_def split: if_splits)
qed

text \<open>Sixty seconds after the update the entry stays; a nanosecond later it goes.\<close>

theorem gc_removes_exactly_witness:
  "''a'' \<in> dom (perPodBackoff (gc exampleBackoff 60000000000))
   \<and> perPodBackoff (gc exampleBackoff 60000000000) ''a''
       = Some \<lparr>backoff = 2 * Second, lastUpdate = 0\<rparr>
   \<and> ''a'' \<notin> dom (perPodBackoff (gc exampleBackoff 60000000001))"
proof -
  let ?e = "\<lparr>backoff = 2 * Second, lastUpdate = 0\<rparr>"
  have e: "perPodBackoff exampleBackoff ''a'' = Some ?e"
    by (simp add: exampleBackoff_def)
  have m: "sint (maxDuration exampleBackoff) = 60000000000"
    by (simp add: exampleBackoff_def Second_def)
  have b: "sint (maxDuration exampleBackoff) < 2 ^ 63 - 1"
    by (simp add: m)
  have d: "''a'' \<in> dom (perPodBackoff exampleBackoff)"
    using e by (simp add: dom_def)
  note at60 = gc_removes_exactly [OF b, of 60000000000]
  note after = gc_removes_exactly [OF b, of 60000000001]
  have 1: "''a'' \<in> dom (perPodBackoff (gc exampleBackoff 60000000000))"
    using at60 [THEN conjunct1] d e m by simp
  have 2: "perPodBackoff (gc exampleBackoff 60000000000) ''a'' = Some ?e"
    using at60 [THEN conjunct2] 1 e by simp
  have 3: "''a'' \<notin> dom (perPodBackoff (gc exampleBackoff 60000000001))"
    using after [THEN conjunct1] d e m by simp
  from 1 2 3 show ?thesis by simp
qed

text \<open>
  With the largest duration as the maximum nothing is ever removed, since
  \<^verbatim>\<open>now.Sub(lastUpdate)\<close> is never more than that: an entry updated \<open>10\<^sup>1\<^sup>9\<close> nanoseconds
  ago, which is longer ago than the maximum, stays.
\<close>

theorem gc_removes_exactly_counterexample:
  "sint (maxDuration saturatedBackoff) < 10000000000000000000 - 0
   \<and> perPodBackoff saturatedBackoff ''a'' = Some \<lparr>backoff = 2 * Second, lastUpdate = 0\<rparr>
   \<and> perPodBackoff (gc saturatedBackoff 10000000000000000000) ''a''
       = Some \<lparr>backoff = 2 * Second, lastUpdate = 0\<rparr>"
  by (simp add: saturatedBackoff_def gc_def expired_def Sub_def Let_def sint_extremes
      word_sless_alt)

subsection \<open>An entry that is used is kept\<close>

lemma getBackoff_entry:
  "perPodBackoff (fst (getBackoff p podID now)) podID =
     Some \<lparr>backoff = nextBackoff (maxDuration p) (current p podID), lastUpdate = now\<rparr>"
  by (simp add: getBackoff_def getEntry_def Let_def current_def split: option.splits)

lemma getBackoff_other:
  "other \<noteq> podID \<Longrightarrow>
     perPodBackoff (fst (getBackoff p podID now)) other = perPodBackoff p other"
  by (simp add: getBackoff_def getEntry_def Let_def)

subsection \<open>Bounds and monotonicity of the stored backoff\<close>

lemma call_config:
  "maxDuration (fst (call p c)) = maxDuration p"
  "defaultDuration (fst (call p c)) = defaultDuration p"
  by (cases c; simp add: split_beta getBackoff_fst_config [simplified] gc_config
      getBackoff_def getEntry_def Let_def)+

lemma boundedConfig_call: "boundedConfig (fst (call p c)) = boundedConfig p"
  by (simp add: boundedConfig_def call_config)

lemma nextBackoff_bounds:
  assumes "0 \<le> sint d" "sint d \<le> sint b" "sint b \<le> sint m" "sint m < 2 ^ 62"
  shows "sint d \<le> sint (nextBackoff m b)" "sint (nextBackoff m b) \<le> sint m"
    "sint b \<le> sint (nextBackoff m b)"
proof -
  have "0 \<le> sint b" using assms by linarith
  then have n: "sint (nextBackoff m b) = min (2 * sint b) (sint m)"
    using assms by (intro nextBackoff_sint) auto
  show "sint d \<le> sint (nextBackoff m b)" using n assms by (simp add: min_def)
  show "sint (nextBackoff m b) \<le> sint m" using n by simp
  show "sint b \<le> sint (nextBackoff m b)" using n assms \<open>0 \<le> sint b\<close> by (simp add: min_def)
qed

lemma current_bounded:
  assumes "boundedConfig p" "entriesBounded p"
  shows "sint (defaultDuration p) \<le> sint (current p podID)"
    "sint (current p podID) \<le> sint (maxDuration p)"
  using assms
  by (auto simp: boundedConfig_def entriesBounded_def current_def word_sle_eq
      split: option.splits)

lemma entriesBounded_getBackoff:
  assumes "boundedConfig p" "entriesBounded p"
  shows "entriesBounded (fst (getBackoff p podID now))"
  unfolding entriesBounded_def
proof (intro allI impI)
  fix other entry
  assume e: "perPodBackoff (fst (getBackoff p podID now)) other = Some entry"
  have c: "0 \<le> sint (defaultDuration p)" "sint (maxDuration p) < 2 ^ 62"
    using assms(1) by (simp_all add: boundedConfig_def)
  show "defaultDuration (fst (getBackoff p podID now)) \<le>s backoff entry
        \<and> backoff entry \<le>s maxDuration (fst (getBackoff p podID now))"
  proof (cases "other = podID")
    case True
    then have "backoff entry = nextBackoff (maxDuration p) (current p podID)"
      using e by (auto simp: getBackoff_entry)
    then show ?thesis
      using nextBackoff_bounds [OF c(1) current_bounded [OF assms] c(2), of podID]
      by (simp add: getBackoff_fst_config word_sle_eq)
  next
    case False
    then have "perPodBackoff p other = Some entry"
      using e by (simp add: getBackoff_other)
    then show ?thesis
      using assms(2) by (simp add: entriesBounded_def getBackoff_fst_config)
  qed
qed

lemma entriesBounded_gc: "entriesBounded p \<Longrightarrow> entriesBounded (gc p now)"
  by (auto simp: entriesBounded_def gc_lookup gc_config split: option.splits if_splits)

lemma entriesBounded_call:
  "boundedConfig p \<Longrightarrow> entriesBounded p \<Longrightarrow> entriesBounded (fst (call p c))"
  by (cases c) (simp_all add: split_beta entriesBounded_getBackoff entriesBounded_gc)

lemma calls_Cons_fst: "fst (calls p (c # cs)) = fst (calls (fst (call p c)) cs)"
  by (simp add: split_beta)

lemma calls_Cons_snd: "snd (calls p (c # cs)) = snd (call p c) @ snd (calls (fst (call p c)) cs)"
  by (simp add: split_beta)

lemma boundedConfig_calls: "boundedConfig (fst (calls p cs)) = boundedConfig p"
  by (induction cs arbitrary: p) (simp_all add: calls_Cons_fst boundedConfig_call del: calls.simps(2))

lemma calls_config:
  "maxDuration (fst (calls p cs)) = maxDuration p"
  "defaultDuration (fst (calls p cs)) = defaultDuration p"
  by (induction cs arbitrary: p; simp add: calls_Cons_fst call_config del: calls.simps(2))+

lemma entriesBounded_calls:
  "boundedConfig p \<Longrightarrow> entriesBounded p \<Longrightarrow> entriesBounded (fst (calls p cs))"
proof (induction cs arbitrary: p)
  case Nil
  then show ?case by simp
next
  case (Cons c cs)
  have "entriesBounded (fst (calls (fst (call p c)) cs))"
    using Cons.prems by (intro Cons.IH) (simp_all add: boundedConfig_call entriesBounded_call)
  then show ?case by (simp only: calls_Cons_fst)
qed

lemma returned_bounded:
  assumes "boundedConfig p" "entriesBounded p" "(podID, d) \<in> set (snd (calls p cs))"
  shows "sint (defaultDuration p) \<le> sint d \<and> sint d \<le> sint (maxDuration p)"
  using assms
proof (induction cs arbitrary: p)
  case Nil
  then show ?case by simp
next
  case (Cons c cs)
  from Cons.prems(3) consider "(podID, d) \<in> set (snd (call p c))"
    | "(podID, d) \<in> set (snd (calls (fst (call p c)) cs))"
    by (auto simp only: calls_Cons_snd set_append)
  then show ?case
  proof cases
    case 1
    then obtain now where "c = GetBackoff podID now" "d = current p podID"
      by (cases c) (auto simp: split_beta getBackoff_snd)
    then show ?thesis using current_bounded [OF Cons.prems(1,2)] by simp
  next
    case 2
    have "sint (defaultDuration (fst (call p c))) \<le> sint d
        \<and> sint d \<le> sint (maxDuration (fst (call p c)))"
      using Cons.prems 2
      by (intro Cons.IH) (simp_all add: boundedConfig_call entriesBounded_call)
    then show ?thesis by (simp add: call_config)
  qed
qed

lemma call_current_mono:
  assumes "boundedConfig p" "entriesBounded p"
    and "perPodBackoff p podID \<noteq> None" "perPodBackoff (fst (call p c)) podID \<noteq> None"
  shows "sint (current p podID) \<le> sint (current (fst (call p c)) podID)"
proof (cases c)
  case (GetBackoff other now)
  have c: "0 \<le> sint (defaultDuration p)" "sint (maxDuration p) < 2 ^ 62"
    using assms(1) by (simp_all add: boundedConfig_def)
  show ?thesis
  proof (cases "other = podID")
    case True
    then show ?thesis
      using GetBackoff nextBackoff_bounds(3) [OF c(1) current_bounded [OF assms(1,2)] c(2), of podID]
      by (simp add: split_beta getBackoff_current)
  next
    case False
    then show ?thesis
      using GetBackoff
      by (simp add: split_beta current_def getBackoff_other getBackoff_fst_config
          split: option.splits)
  qed
next
  case (Gc now)
  then show ?thesis
    using assms(3,4)
    by (auto simp: current_def gc_lookup gc_config split: option.splits if_splits)
qed

lemma calls_current_mono:
  assumes "boundedConfig p" "entriesBounded p" "keptThroughout podID p cs"
  shows "sint (current p podID) \<le> sint (current (fst (calls p cs)) podID)"
  using assms
proof (induction cs arbitrary: p)
  case Nil
  then show ?case by simp
next
  case (Cons c cs)
  let ?p1 = "fst (call p c)"
  have k: "perPodBackoff p podID \<noteq> None" "keptThroughout podID ?p1 cs"
    using Cons.prems(3) by simp_all
  have k1: "perPodBackoff ?p1 podID \<noteq> None"
    using k(2) by (cases cs) simp_all
  have "sint (current p podID) \<le> sint (current ?p1 podID)"
    using Cons.prems(1,2) k(1) k1 by (rule call_current_mono)
  also have "\<dots> \<le> sint (current (fst (calls ?p1 cs)) podID)"
    using Cons.prems(1,2) k(2)
    by (intro Cons.IH) (simp_all add: boundedConfig_call entriesBounded_call)
  finally show ?case by (simp only: calls_Cons_fst)
qed

text \<open>
  Claim C8, amended. With \<open>0 \<le> defaultDuration \<le> maxDuration < 2\<^sup>6\<^sup>2\<close> nanoseconds, and
  starting from a map whose entries are within the bounds (the empty map is), after any
  sequence of \<^verbatim>\<open>getBackoff\<close> and \<^verbatim>\<open>gc\<close> calls every stored backoff is at least the
  default and at most the maximum, and so is every duration returned on the way; and of
  two \<^verbatim>\<open>getBackoff\<close> calls for one pod the later returns no less than the earlier,
  provided the pod's entry was not collected in between.
\<close>

theorem backoff_bounded_and_monotone:
  assumes "boundedConfig p" and "entriesBounded p"
  shows "entriesBounded (fst (calls p cs))
    \<and> (\<forall>(podID, d) \<in> set (snd (calls p cs)).
          defaultDuration p \<le>s d \<and> d \<le>s maxDuration p)
    \<and> (keptThroughout podID (fst (getBackoff p podID t1)) cs \<longrightarrow>
          snd (getBackoff p podID t1)
            \<le>s snd (getBackoff (fst (calls (fst (getBackoff p podID t1)) cs)) podID t2))"
proof (intro conjI impI)
  show "entriesBounded (fst (calls p cs))"
    using assms by (rule entriesBounded_calls)
next
  show "\<forall>(podID, d) \<in> set (snd (calls p cs)).
          defaultDuration p \<le>s d \<and> d \<le>s maxDuration p"
    using returned_bounded [OF assms] by (auto simp: word_sle_eq)
next
  assume kept: "keptThroughout podID (fst (getBackoff p podID t1)) cs"
  let ?p1 = "fst (getBackoff p podID t1)"
  have b1: "boundedConfig ?p1"
    using assms(1) by (simp add: boundedConfig_def getBackoff_fst_config)
  have e1: "entriesBounded ?p1"
    using assms by (rule entriesBounded_getBackoff)
  have c: "0 \<le> sint (defaultDuration p)" "sint (maxDuration p) < 2 ^ 62"
    using assms(1) by (simp_all add: boundedConfig_def)
  have "sint (current p podID) \<le> sint (current ?p1 podID)"
    using nextBackoff_bounds(3) [OF c(1) current_bounded [OF assms] c(2), of podID]
    by (simp add: getBackoff_current)
  also have "\<dots> \<le> sint (current (fst (calls ?p1 cs)) podID)"
    using b1 e1 kept by (rule calls_current_mono)
  finally show "snd (getBackoff p podID t1)
            \<le>s snd (getBackoff (fst (calls ?p1 cs)) podID t2)"
    by (simp add: getBackoff_snd word_sle_eq)
qed

text \<open>The factory's manager, with a call for another pod and a collection in between.\<close>

theorem backoff_bounded_and_monotone_witness:
  "entriesBounded (fst (calls factoryBackoff [GetBackoff ''a'' 0, Gc 1000000000]))
   \<and> snd (getBackoff factoryBackoff ''a'' 0)
       \<le>s snd (getBackoff
            (fst (calls (fst (getBackoff factoryBackoff ''a'' 0))
               [GetBackoff ''b'' 1000000000, Gc 2000000000])) ''a'' 3000000000)"
proof -
  have b: "boundedConfig factoryBackoff"
    by (simp add: boundedConfig_def factoryBackoff_def Second_def)
  have e: "entriesBounded factoryBackoff"
    by (simp add: entriesBounded_def factoryBackoff_def)
  have k: "keptThroughout ''a'' (fst (getBackoff factoryBackoff ''a'' 0))
      [GetBackoff ''b'' 1000000000, Gc 2000000000]"
    by (simp add: split_beta getBackoff_entry getBackoff_other gc_lookup age_def Sub_exact
        getBackoff_fst_config factoryBackoff_def Second_def)
  from backoff_bounded_and_monotone [OF b e, of "[GetBackoff ''a'' 0, Gc 1000000000]"]
  have 1: "entriesBounded (fst (calls factoryBackoff [GetBackoff ''a'' 0, Gc 1000000000]))"
    by (rule conjunct1)
  from backoff_bounded_and_monotone [OF b e,
      of "[GetBackoff ''b'' 1000000000, Gc 2000000000]" "''a''" 0 3000000000] k
  have 2: "snd (getBackoff factoryBackoff ''a'' 0)
       \<le>s snd (getBackoff
            (fst (calls (fst (getBackoff factoryBackoff ''a'' 0))
               [GetBackoff ''b'' 1000000000, Gc 2000000000])) ''a'' 3000000000)"
    by blast
  from 1 2 show ?thesis by (rule conjI)
qed

text \<open>
  Where the claim fails as it stands. In the factory's configuration a collection a
  hundred seconds after the second call removes the entry, and the third call returns
  one second again, after two. With a default of minus one nanosecond, which is below
  the maximum, the first call stores minus two nanoseconds, below the default.
\<close>

theorem backoff_bounded_and_monotone_counterexample:
  "defaultDuration factoryBackoff \<le>s maxDuration factoryBackoff
   \<and> map (\<lambda>(podID, d). (podID, sint d))
       (snd (calls factoryBackoff
          [GetBackoff ''a'' 0, GetBackoff ''a'' 0, Gc 100000000000,
           GetBackoff ''a'' 100000000000]))
     = [(''a'', 1000000000), (''a'', 2000000000), (''a'', 1000000000)]
   \<and> (- 1 :: Duration) \<le>s 60 * Second
   \<and> map_option (\<lambda>entry. sint (backoff entry))
       (perPodBackoff (fst (getBackoff
          \<lparr>perPodBackoff = Map.empty, defaultDuration = - 1, maxDuration = 60 * Second\<rparr>
          ''a'' 0)) ''a'')
     = Some (- 2)"
proof (intro conjI)
  show "defaultDuration factoryBackoff \<le>s maxDuration factoryBackoff"
    by (simp add: factoryBackoff_def Second_def word_sle_eq)
  show "(- 1 :: Duration) \<le>s 60 * Second"
    by (simp add: Second_def word_sle_eq)
  show "map_option (\<lambda>entry. sint (backoff entry))
       (perPodBackoff (fst (getBackoff
          \<lparr>perPodBackoff = Map.empty, defaultDuration = - 1, maxDuration = 60 * Second\<rparr>
          ''a'' 0)) ''a'')
     = Some (- 2)"
    by (simp add: getBackoff_entry current_def nextBackoff_def Let_def Second_def word_sless_alt)
  show "map (\<lambda>(podID, d). (podID, sint d))
       (snd (calls factoryBackoff
          [GetBackoff ''a'' 0, GetBackoff ''a'' 0, Gc 100000000000,
           GetBackoff ''a'' 100000000000]))
     = [(''a'', 1000000000), (''a'', 2000000000), (''a'', 1000000000)]"
    by (simp add: split_beta getBackoff_snd getBackoff_current getBackoff_entry current_def
        gc_lookup age_def Sub_exact getBackoff_fst_config gc_config nextBackoff_def Let_def
        factoryBackoff_def Second_def word_sless_alt)
qed

subsection \<open>Refreshing an entry and collecting it\<close>





subsection \<open>The node filter\<close>

lemma lastCondition_snoc:
  "lastCondition t (conds @ [c]) = (if condType c = t then Some c else lastCondition t conds)"
  by (simp add: lastCondition_def)

lemma conditionMap_snoc:
  "conditionMap (conds @ [c]) t = (if condType c = t then Some c else conditionMap conds t)"
  by (simp add: conditionMap_def)

lemma conditionMap_lastCondition: "conditionMap conds t = lastCondition t conds"
proof (induction conds rule: rev_induct)
  case Nil
  show ?case by (simp add: conditionMap_def lastCondition_def)
next
  case (snoc c conds)
  then show ?case by (simp only: conditionMap_snoc lastCondition_snoc)
qed

lemma filterMinions_filter: "filterMinions nodes acc = acc @ filter eligible nodes"
  by (induction nodes arbitrary: acc)
    (auto simp: Let_def eligible_def conditionMap_lastCondition split: option.splits)

lemma lastCondition_unique:
  assumes "length (filter (\<lambda>c. condType c = t) conds) \<le> 1"
  shows "lastCondition t conds = Some c \<longleftrightarrow> c \<in> set conds \<and> condType c = t"
proof (cases "filter (\<lambda>c. condType c = t) conds")
  case Nil
  then have "\<forall>c \<in> set conds. condType c \<noteq> t" by (simp add: filter_empty_conv)
  then show ?thesis using Nil by (auto simp: lastCondition_def)
next
  case (Cons x xs)
  then have xs: "xs = []" using assms by simp
  have "set (filter (\<lambda>c. condType c = t) conds) = {x}" using Cons xs by simp
  then have "c \<in> set conds \<and> condType c = t \<longleftrightarrow> c = x" by auto
  then show ?thesis using Cons xs by (auto simp: lastCondition_def)
qed

lemma eligible_unique:
  assumes "length (filter (\<lambda>c. condType c = NodeReady) (conditions node)) \<le> 1"
  shows "eligible node = specEligible node"
proof (cases "lastCondition NodeReady (conditions node)")
  case None
  then have "\<forall>c \<in> set (conditions node). condType c \<noteq> NodeReady"
    using lastCondition_unique [OF assms] by auto
  then show ?thesis using None by (auto simp: eligible_def specEligible_def)
next
  case (Some x)
  have "\<forall>c \<in> set (conditions node). condType c = NodeReady \<longrightarrow> c = x"
    using lastCondition_unique [OF assms] Some by (metis option.inject)
  moreover have "x \<in> set (conditions node) \<and> condType x = NodeReady"
    using lastCondition_unique [OF assms, of x] Some by simp
  ultimately show ?thesis using Some by (auto simp: eligible_def specEligible_def)
qed

text \<open>
  Claim C2, amended. When the listing fails, \<^verbatim>\<open>pollMinions\<close> returns the error. Otherwise
  the enumerator holds, in the order of the listing, exactly the nodes that are not
  unschedulable and whose last condition of type ready has status true (a later
  condition overrides an earlier one of the same type); a node with no ready condition
  is left out. When no node has more than one ready condition, these are exactly the nodes
  that are not unschedulable and carry a ready condition with status true.
\<close>

theorem pollMinions_filters:
  "pollMinions (Inl err) = Inl err
   \<and> pollMinions (Inr allNodes) =
       Inr \<lparr>nodeList = Some \<lparr>typeMeta = typeMeta allNodes, listMeta = listMeta allNodes,
                             items = filter eligible (items allNodes)\<rparr>\<rparr>
   \<and> ((\<forall>node \<in> set (items allNodes).
          length (filter (\<lambda>c. condType c = NodeReady) (conditions node)) \<le> 1) \<longrightarrow>
       pollMinions (Inr allNodes) =
         Inr \<lparr>nodeList = Some \<lparr>typeMeta = typeMeta allNodes, listMeta = listMeta allNodes,
                               items = filter specEligible (items allNodes)\<rparr>\<rparr>)"
proof (intro conjI impI)
  show "pollMinions (Inl err) = Inl err"
    by (simp add: pollMinions_def)
next
  show p: "pollMinions (Inr allNodes) =
       Inr \<lparr>nodeList = Some \<lparr>typeMeta = typeMeta allNodes, listMeta = listMeta allNodes,
                             items = filter eligible (items allNodes)\<rparr>\<rparr>"
    by (simp add: pollMinions_def filterMinions_filter)
  assume "\<forall>node \<in> set (items allNodes).
          length (filter (\<lambda>c. condType c = NodeReady) (conditions node)) \<le> 1"
  then have "filter eligible (items allNodes) = filter specEligible (items allNodes)"
    by (intro filter_cong refl) (simp add: eligible_unique)
  then show "pollMinions (Inr allNodes) =
         Inr \<lparr>nodeList = Some \<lparr>typeMeta = typeMeta allNodes, listMeta = listMeta allNodes,
                               items = filter specEligible (items allNodes)\<rparr>\<rparr>"
    using p by simp
qed

text \<open>
  A node without conditions, a ready one, an unschedulable ready one and one that is
  not ready: only the second is enumerated.
\<close>

theorem pollMinions_filters_witness:
  "pollMinions (Inr (listOf [silentNode, readyNode, cordonedNode, unreadyNode])) =
     Inr \<lparr>nodeList = Some (listOf [readyNode])\<rparr>"
proof -
  let ?all = "listOf [silentNode, readyNode, cordonedNode, unreadyNode]"
  have u: "\<forall>node \<in> set (items ?all).
      length (filter (\<lambda>c. condType c = NodeReady) (conditions node)) \<le> 1"
    by (simp add: listOf_def silentNode_def readyNode_def cordonedNode_def unreadyNode_def)
  have s: "filter specEligible (items ?all) = [readyNode]"
    by (simp add: listOf_def specEligible_def silentNode_def readyNode_def cordonedNode_def
        unreadyNode_def ConditionTrue_def)
  have "pollMinions (Inr ?all) =
         Inr \<lparr>nodeList = Some \<lparr>typeMeta = typeMeta ?all, listMeta = listMeta ?all,
                               items = filter specEligible (items ?all)\<rparr>\<rparr>"
    using pollMinions_filters [of "Error []" ?all] u by blast
  then show ?thesis
    unfolding s by (simp add: listOf_def)
qed

text \<open>
  Two ready conditions on one node. A schedulable node that carries "ready, true"
  followed by "ready, false" is left out; one that carries "ready, false" followed by
  "ready, true" is enumerated.
\<close>

theorem pollMinions_filters_counterexample:
  "specEligible staleReadyNode
   \<and> pollMinions (Inr (listOf [staleReadyNode])) = Inr \<lparr>nodeList = Some (listOf [])\<rparr>
   \<and> \<lparr>condType = NodeReady, condStatus = ''False''\<rparr> \<in> set (conditions recoveredNode)
   \<and> pollMinions (Inr (listOf [recoveredNode])) = Inr \<lparr>nodeList = Some (listOf [recoveredNode])\<rparr>"
  by (simp add: specEligible_def staleReadyNode_def recoveredNode_def pollMinions_def
      listOf_def conditionMap_def Let_def ConditionTrue_def)

subsection \<open>The enumerator\<close>

text \<open>
  Claim C10. \<^verbatim>\<open>Len\<close> returns 0 for a nil list and the number of items otherwise, and
  never panics; for \<open>0 \<le> i < Len\<close> the list is not nil, the index is in range and
  \<^verbatim>\<open>Get\<close> returns the \<open>i\<close>-th node.
\<close>

theorem Len_Get_total:
  "(nodeList ne = None \<longrightarrow> Len ne = 0)
   \<and> (\<forall>nl. nodeList ne = Some nl \<longrightarrow> Len ne = int (length (items nl)))
   \<and> (0 \<le> i \<and> i < Len ne \<longrightarrow>
        (\<exists>nl. nodeList ne = Some nl \<and> nat i < length (items nl)
           \<and> Get ne i = Inr (items nl ! nat i)))"
  by (cases "nodeList ne") (auto simp: Len_def Get_def)

text \<open>A nil enumerator, and one of two nodes.\<close>

theorem Len_Get_total_witness:
  "Len \<lparr>nodeList = None\<rparr> = 0
   \<and> Len \<lparr>nodeList = Some (listOf [readyNode, silentNode])\<rparr> = 2
   \<and> Get \<lparr>nodeList = Some (listOf [readyNode, silentNode])\<rparr> 1 = Inr silentNode"
proof -
  let ?ne = "\<lparr>nodeList = Some (listOf [readyNode, silentNode])\<rparr>"
  have 0: "Len \<lparr>nodeList = None\<rparr> = 0"
    using Len_Get_total [of "\<lparr>nodeList = None\<rparr>" 0] by simp
  have 1: "Len ?ne = 2"
    using Len_Get_total [of ?ne 0] by (simp add: listOf_def)
  have "\<exists>nl. nodeList ?ne = Some nl \<and> nat 1 < length (items nl) \<and> Get ?ne 1 = Inr (items nl ! nat 1)"
    using Len_Get_total [of ?ne 1] 1 by simp
  then have 2: "Get ?ne 1 = Inr silentNode"
    by (auto simp: listOf_def)
  from 0 1 2 show ?thesis by simp
qed

subsection \<open>The retry task\<close>

text \<open>
  Claim C3. The retry task first sleeps for the duration \<^verbatim>\<open>getBackoff\<close> returns for the
  pod's name, then asks the remote store for the pod by its namespace and name. When the
  store answers with an error the task logs and stops: nothing is added to the queue.
  Otherwise it adds the pod it fetched, once, if and only if that pod's host is empty.
\<close>

theorem retryTask_requeues_unassigned:
  "take 2 (snd (retryTask clientGet pb now pod)) =
     [Sleep (snd (getBackoff pb (podName pod) now)),
      GetPod (podNamespace pod) (podName pod)]
   \<and> (\<forall>err. clientGet (podNamespace pod) (podName pod) = Inl err \<longrightarrow>
        snd (retryTask clientGet pb now pod) =
          [Sleep (snd (getBackoff pb (podName pod) now)),
           GetPod (podNamespace pod) (podName pod), LogAbandon (podName pod) err])
   \<and> (\<forall>queued. QueueAdd queued \<in> set (snd (retryTask clientGet pb now pod)) \<longleftrightarrow>
        clientGet (podNamespace pod) (podName pod) = Inr queued \<and> podHost queued = [])
   \<and> length (filter (\<lambda>c. \<exists>queued. c = QueueAdd queued)
        (snd (retryTask clientGet pb now pod))) \<le> 1"
  by (cases "clientGet (podNamespace pod) (podName pod)")
    (auto simp: retryTask_def wait_def Let_def split_beta)

text \<open>A deleted pod is abandoned, a pending one is queued again, a bound one is not.\<close>

theorem retryTask_requeues_unassigned_witness:
  "snd (retryTask remoteExample factoryBackoff 0
         \<lparr>podNamespace = ''default'', podName = ''deleted'', podHost = []\<rparr>) =
     [Sleep (1 * Second), GetPod ''default'' ''deleted'',
      LogAbandon ''deleted'' (Error ''not found'')]
   \<and> QueueAdd \<lparr>podNamespace = ''default'', podName = ''pending'', podHost = []\<rparr>
       \<in> set (snd (retryTask remoteExample factoryBackoff 0
           \<lparr>podNamespace = ''default'', podName = ''pending'', podHost = []\<rparr>))
   \<and> QueueAdd \<lparr>podNamespace = ''default'', podName = ''bound'', podHost = ''node-1''\<rparr>
       \<notin> set (snd (retryTask remoteExample factoryBackoff 0
           \<lparr>podNamespace = ''default'', podName = ''bound'', podHost = []\<rparr>))"
proof -
  let ?deleted = "\<lparr>podNamespace = ''default'', podName = ''deleted'', podHost = []\<rparr>"
  let ?pending = "\<lparr>podNamespace = ''default'', podName = ''pending'', podHost = []\<rparr>"
  let ?bound = "\<lparr>podNamespace = ''default'', podName = ''bound'', podHost = []\<rparr>"
  have d: "snd (getBackoff factoryBackoff ''deleted'' 0) = 1 * Second"
    by (simp add: getBackoff_snd current_def factoryBackoff_def)
  have 1: "snd (retryTask remoteExample factoryBackoff 0 ?deleted) =
     [Sleep (1 * Second), GetPod ''default'' ''deleted'',
      LogAbandon ''deleted'' (Error ''not found'')]"
    using retryTask_requeues_unassigned [of remoteExample factoryBackoff 0 ?deleted] d
    by (simp add: remoteExample_def)
  have 2: "QueueAdd ?pending \<in> set (snd (retryTask remoteExample factoryBackoff 0 ?pending))"
    using retryTask_requeues_unassigned [of remoteExample factoryBackoff 0 ?pending]
    by (simp add: remoteExample_def)
  have 3: "QueueAdd \<lparr>podNamespace = ''default'', podName = ''bound'', podHost = ''node-1''\<rparr>
       \<notin> set (snd (retryTask remoteExample factoryBackoff 0 ?bound))"
    using retryTask_requeues_unassigned [of remoteExample factoryBackoff 0 ?bound]
    by (simp add: remoteExample_def)
  from 1 2 3 show ?thesis by simp
qed

subsection \<open>Assigned pods are forgotten\<close>

text \<open>
  Claim C5. An add event that carries a pod calls \<^verbatim>\<open>ForgetPod\<close> with that pod; a delete
  event calls \<^verbatim>\<open>ForgetPod\<close> when it carries a pod and \<^verbatim>\<open>ForgetPodByKey\<close> with the key
  when it carries a \<^verbatim>\<open>DeletedFinalStateUnknown\<close>. So after each of these events the
  pod's key is out of the assumed set, and no other key is.
\<close>

theorem assigned_pod_events_forget:
  "assignedPodHandler (OnAdd (PodObject pod)) = [ForgetPod pod]
   \<and> assignedPodHandler (OnDelete (PodObject pod)) = [ForgetPod pod]
   \<and> assignedPodHandler (OnDelete (DeletedFinalStateUnknown key final)) = [ForgetPodByKey key]
   \<and> assumedAfter keyFunc assumed (OnAdd (PodObject pod)) = assumed - {keyFunc pod}
   \<and> assumedAfter keyFunc assumed (OnDelete (PodObject pod)) = assumed - {keyFunc pod}
   \<and> assumedAfter keyFunc assumed (OnDelete (DeletedFinalStateUnknown key final))
       = assumed - {key}"
  by (simp add: assignedPodHandler_def AddFunc_def DeleteFunc_def assumedAfter_def)

subsection \<open>An invalid policy starts nothing\<close>

text \<open>
  Claim C6. When validation of the policy fails, \<^verbatim>\<open>CreateFromConfig\<close> returns that
  error, and all it has done is write its first log line: it has registered no predicate
  and no priority and started no reflector and no goroutine. (It assigns to no field of
  the factory on any path.)
\<close>

theorem CreateFromConfig_rejects_invalid:
  "ValidatePolicy env policy = Some err \<Longrightarrow>
     CreateFromConfig env policy = (Inl err, [LogInfo ''creating scheduler from configuration''])"
  by (simp add: CreateFromConfig_def)

text \<open>A policy with a priority of weight zero, under the strict validation.\<close>

theorem CreateFromConfig_rejects_invalid_witness:
  "CreateFromConfig strictValidation
     \<lparr>predicates = [\<lparr>predicateName = ''PodFitsPorts''\<rparr>],
      priorities = [\<lparr>priorityName = ''LeastRequestedPriority'', priorityWeight = 0\<rparr>]\<rparr>
   = (Inl (Error ''priority weight must be positive''),
      [LogInfo ''creating scheduler from configuration''])"
proof -
  let ?policy = "\<lparr>predicates = [\<lparr>predicateName = ''PodFitsPorts''\<rparr>],
      priorities = [\<lparr>priorityName = ''LeastRequestedPriority'', priorityWeight = 0\<rparr>]\<rparr>"
  have "ValidatePolicy strictValidation ?policy = Some (Error ''priority weight must be positive'')"
    by (simp add: strictValidation_def)
  then show ?thesis by (rule CreateFromConfig_rejects_invalid)
qed

text \<open>The same policy with weight one: registrations and reflectors, in order.\<close>

lemma CreateFromConfig_valid_example:
  "snd (CreateFromConfig strictValidation
     \<lparr>predicates = [\<lparr>predicateName = ''PodFitsPorts''\<rparr>],
      priorities = [\<lparr>priorityName = ''LeastRequestedPriority'', priorityWeight = 1\<rparr>]\<rparr>)
   = [LogInfo ''creating scheduler from configuration'',
      LogInfo ''Registering predicate'',
      RegisterCustomFitPredicate \<lparr>predicateName = ''PodFitsPorts''\<rparr>,
      LogInfo ''Registering priority'',
      RegisterCustomPriorityFunction
        \<lparr>priorityName = ''LeastRequestedPriority'', priorityWeight = 1\<rparr>,
      LogInfo ''creating scheduler with fit predicates and priority functions'',
      RunReflector ''pods'', RunScheduledPodPopulator,
      RunReflector ''nodes'', RunReflector ''services'']"
  by (simp add: CreateFromConfig_def CreateFromKeys_def strictValidation_def Let_def)

subsection \<open>The filters of the list/watch sources\<close>

lemma splitFrom_absent:
  assumes "sep = c # rest" "c \<notin> set s"
  shows "splitFrom sep 0 acc s = [rev acc @ s]"
  using assms(2)
proof (induction s arbitrary: acc)
  case Nil
  show ?case by simp
next
  case (Cons x xs)
  then have "x \<noteq> c" "c \<notin> set xs" by auto
  then have "take (length sep) (x # xs) \<noteq> sep"
    using assms(1) by auto
  then show ?case
    using Cons.IH [OF \<open>c \<notin> set xs\<close>, of "x # acc"] by simp
qed

lemma Split_absent: "c \<notin> set s \<Longrightarrow> Split s (c # rest) = [s]"
  using splitFrom_absent [of "c # rest" c rest s "[]"] by (simp add: Split_def)

lemma splitFrom_ne_suffix:
  assumes "CHR ''!'' \<notin> set h"
  shows "splitFrom ''!='' 0 acc (h @ ''!='') = [rev acc @ h, []]"
  using assms
proof (induction h arbitrary: acc)
  case Nil
  show ?case by simp
next
  case (Cons x xs)
  then have "x \<noteq> CHR ''!''" "CHR ''!'' \<notin> set xs" by auto
  then show ?case
    using Cons.IH [OF \<open>CHR ''!'' \<notin> set xs\<close>, of "x # acc"] by simp
qed

lemma tryOp_ne_suffix: "CHR ''!'' \<notin> set h \<Longrightarrow> tryOp (h @ ''!='') ''!='' = Some (h, [])"
  using splitFrom_ne_suffix [of h "[]"] by (simp add: tryOp_def Split_def)

lemma ParseSelector_not_equal:
  assumes "plainFieldName h"
  shows "ParseSelector (h @ ''!='') = Inr (NotHasTerm h [])"
proof -
  have "CHR '','' \<notin> set (h @ ''!='')" using assms by (simp add: plainFieldName_def)
  then have s: "Split (h @ ''!='') '','' = [h @ ''!='']" by (rule Split_absent)
  have t: "parseTerm (h @ ''!='') = Inr (NotHasTerm h [])"
    using assms by (simp add: parseTerm_def tryOp_ne_suffix plainFieldName_def)
  show ?thesis
    by (simp add: ParseSelector_def s t)
qed

lemma ParseSelector_empty: "ParseSelector [] = Inr (AndTerm [])"
  by (simp add: ParseSelector_def Split_def)

text \<open>
  Claim C7. For a name of the assignment field without comma, exclamation mark or equals
  sign: the unassigned-pod source lists pods and selects exactly the pods whose host is
  empty; the assigned-pod source is built without a panic, lists pods and selects
  exactly the pods whose host is not empty; the node source and the service source are
  built without a panic and select everything.
\<close>

theorem list_watch_filters:
  assumes "plainFieldName PodHost"
  shows "lwResource (createUnassignedPodLW PodHost) = ''pods''
    \<and> (\<forall>pod. Matches (lwFieldSelector (createUnassignedPodLW PodHost)) (podFields PodHost pod)
           \<longleftrightarrow> podHost pod = [])
    \<and> (\<exists>lw. createAssignedPodLW PodHost = Inr lw \<and> lwResource lw = ''pods''
           \<and> (\<forall>pod. Matches (lwFieldSelector lw) (podFields PodHost pod)
                  \<longleftrightarrow> podHost pod \<noteq> []))
    \<and> (\<exists>lw. createMinionLW = Inr lw \<and> lwResource lw = ''nodes''
           \<and> (\<forall>fv. Matches (lwFieldSelector lw) fv))
    \<and> (\<exists>lw. createServiceLW = Inr lw \<and> lwResource lw = ''services''
           \<and> (\<forall>fv. Matches (lwFieldSelector lw) fv))"
proof (intro conjI)
  show "lwResource (createUnassignedPodLW PodHost) = ''pods''"
    by (simp add: createUnassignedPodLW_def NewListWatchFromClient_def)
  show "\<forall>pod. Matches (lwFieldSelector (createUnassignedPodLW PodHost)) (podFields PodHost pod)
           \<longleftrightarrow> podHost pod = []"
    by (simp add: createUnassignedPodLW_def NewListWatchFromClient_def AsSelector_def
        podFields_def)
  show "\<exists>lw. createAssignedPodLW PodHost = Inr lw \<and> lwResource lw = ''pods''
           \<and> (\<forall>pod. Matches (lwFieldSelector lw) (podFields PodHost pod)
                  \<longleftrightarrow> podHost pod \<noteq> [])"
    using ParseSelector_not_equal [OF assms]
    by (simp add: createAssignedPodLW_def parseSelectorOrDie_def NewListWatchFromClient_def
        podFields_def)
  show "\<exists>lw. createMinionLW = Inr lw \<and> lwResource lw = ''nodes''
           \<and> (\<forall>fv. Matches (lwFieldSelector lw) fv)"
    by (intro exI [of _ "NewListWatchFromClient ''nodes'' NamespaceAll (AndTerm [])"] conjI allI)
      (simp_all add: createMinionLW_def parseSelectorOrDie_def ParseSelector_empty
        NewListWatchFromClient_def)
  show "\<exists>lw. createServiceLW = Inr lw \<and> lwResource lw = ''services''
           \<and> (\<forall>fv. Matches (lwFieldSelector lw) fv)"
    by (intro exI [of _ "NewListWatchFromClient ''services'' NamespaceAll (AndTerm [])"] conjI allI)
      (simp_all add: createServiceLW_def parseSelectorOrDie_def ParseSelector_empty
        NewListWatchFromClient_def)
qed

text \<open>With the field name \<^verbatim>\<open>spec.host\<close>.\<close>

theorem list_watch_filters_witness:
  "createAssignedPodLW ''spec.host'' =
     Inr \<lparr>lwResource = ''pods'', lwNamespace = [],
          lwFieldSelector = NotHasTerm ''spec.host'' []\<rparr>
   \<and> Matches (lwFieldSelector (createUnassignedPodLW ''spec.host''))
       (podFields ''spec.host'' \<lparr>podNamespace = ''default'', podName = ''pending'', podHost = []\<rparr>)
   \<and> \<not> Matches (lwFieldSelector (createUnassignedPodLW ''spec.host''))
       (podFields ''spec.host''
          \<lparr>podNamespace = ''default'', podName = ''bound'', podHost = ''node-1''\<rparr>)"
proof -
  have p: "plainFieldName ''spec.host''"
    by (simp add: plainFieldName_def)
  have 1: "createAssignedPodLW ''spec.host'' =
     Inr \<lparr>lwResource = ''pods'', lwNamespace = [],
          lwFieldSelector = NotHasTerm ''spec.host'' []\<rparr>"
    using ParseSelector_not_equal [OF p]
    by (simp add: createAssignedPodLW_def parseSelectorOrDie_def NewListWatchFromClient_def
        NamespaceAll_def)
  have 2: "\<forall>pod. Matches (lwFieldSelector (createUnassignedPodLW ''spec.host''))
        (podFields ''spec.host'' pod) \<longleftrightarrow> podHost pod = []"
    using list_watch_filters [OF p] by blast
  show ?thesis
    using 1 2 by simp
qed

end
